theory Spec2Isabelle
  imports Main "HOL-Library.Sublist" "HOL-Library.AList"
begin

section \<open>JavaScript values\<close>

text \<open>
  The bot handles protobuf-decoded message payloads, plugin modules and credential blobs as
  plain JavaScript values. They are embedded as a datatype: an object is the list of its
  own properties in insertion order (the order \<open>Object.keys\<close> reports), a function is
  an opaque identity. Strings are ASCII character lists. Equal values stand for the same
  object.
\<close>

datatype js =
    JUndefined
  | JNull
  | JBool bool
  | JNum int
  | JStr string
  | JArr "js list"
  | JObj "(string \<times> js) list"
  | JFun nat

text \<open>Truthiness, as \<open>if (v)\<close>, \<open>v || w\<close> and \<open>v && w\<close> test it.\<close>

fun truthy :: "js \<Rightarrow> bool" where
  "truthy JUndefined = False"
| "truthy JNull = False"
| "truthy (JBool b) = b"
| "truthy (JNum n) = (n \<noteq> 0)"
| "truthy (JStr s) = (s \<noteq> [])"
| "truthy (JArr xs) = True"
| "truthy (JObj kvs) = True"
| "truthy (JFun f) = True"

text \<open>\<open>a || b\<close>\<close>

definition js_or :: "js \<Rightarrow> js \<Rightarrow> js" where
  "js_or a b = (if truthy a then a else b)"

text \<open>
  \<open>v?.k\<close>: the property \<open>k\<close> of \<open>v\<close>, \<open>undefined\<close> when \<open>v\<close> is
  \<open>null\<close> or \<open>undefined\<close> or has no such property. Built-in properties of
  primitives and arrays (\<open>length\<close>) are read by the functions that need them.
\<close>

fun oget :: "js \<Rightarrow> string \<Rightarrow> js" where
  "oget (JObj kvs) k = (case map_of kvs k of Some v \<Rightarrow> v | None \<Rightarrow> JUndefined)"
| "oget v k = JUndefined"

datatype error = TypeError

text \<open>\<open>v.k\<close>: as \<open>v?.k\<close>, but a TypeError on \<open>null\<close> and \<open>undefined\<close>.\<close>

fun get_prop :: "js \<Rightarrow> string \<Rightarrow> error + js" where
  "get_prop JUndefined k = Inl TypeError"
| "get_prop JNull k = Inl TypeError"
| "get_prop v k = Inr (oget v k)"

subsection \<open>Strings\<close>

text \<open>
  \<open>toLowerCase\<close> and \<open>toUpperCase\<close> on ASCII: the 26 letters change case, every
  other character stays.
\<close>

definition toLowerCase_char :: "char \<Rightarrow> char" where
  "toLowerCase_char c =
     (case map_of (zip ''ABCDEFGHIJKLMNOPQRSTUVWXYZ'' ''abcdefghijklmnopqrstuvwxyz'') c of
        Some d \<Rightarrow> d | None \<Rightarrow> c)"

definition toUpperCase_char :: "char \<Rightarrow> char" where
  "toUpperCase_char c =
     (case map_of (zip ''abcdefghijklmnopqrstuvwxyz'' ''ABCDEFGHIJKLMNOPQRSTUVWXYZ'') c of
        Some d \<Rightarrow> d | None \<Rightarrow> c)"

definition toLowerCase :: "string \<Rightarrow> string" where
  "toLowerCase s = map toLowerCase_char s"

definition toUpperCase :: "string \<Rightarrow> string" where
  "toUpperCase s = map toUpperCase_char s"

text \<open>\<open>s.startsWith(p)\<close> is \<^const>\<open>prefix\<close>, \<open>s.endsWith(p)\<close> is \<^const>\<open>suffix\<close>.\<close>

text \<open>\<open>s.includes(t)\<close>: \<open>t\<close> occurs in \<open>s\<close> as a contiguous substring.\<close>

fun str_includes :: "string \<Rightarrow> string \<Rightarrow> bool" where
  "str_includes [] t = (t = [])"
| "str_includes (c # cs) t = (prefix t (c # cs) \<or> str_includes cs t)"

text \<open>\<open>s.replace(t, '')\<close> with a string pattern: the first occurrence of \<open>t\<close> is removed.\<close>

fun remove_first :: "string \<Rightarrow> string \<Rightarrow> string" where
  "remove_first t [] = []"
| "remove_first t (c # cs) =
     (if prefix t (c # cs) then drop (length t) (c # cs) else c # remove_first t cs)"

text \<open>\<open>s.split(sep)[0]\<close> for a one-character separator: the part before its first occurrence.\<close>

definition split_first :: "char \<Rightarrow> string \<Rightarrow> string" where
  "split_first sep s = takeWhile (\<lambda>c. c \<noteq> sep) s"

definition is_space :: "char \<Rightarrow> bool" where
  "is_space c = (c \<in> set [CHR '' '', CHR 0x09, CHR 0x0A, CHR 0x0B, CHR 0x0C, CHR 0x0D])"

definition trim :: "string \<Rightarrow> string" where
  "trim s = rev (dropWhile is_space (rev (dropWhile is_space s)))"

text \<open>
  \<open>s.split(/ +/)\<close>: the pieces between maximal runs of spaces. The flag says that the
  scan is inside a run, \<open>cur\<close> is the piece being read, reversed.
\<close>

fun split_spaces_from :: "bool \<Rightarrow> string \<Rightarrow> string \<Rightarrow> string list" where
  "split_spaces_from insep cur [] = [rev cur]"
| "split_spaces_from insep cur (c # cs) =
     (if c = CHR '' ''
      then (if insep then split_spaces_from True cur cs
            else rev cur # split_spaces_from True [] cs)
      else split_spaces_from False (c # cur) cs)"

definition split_spaces :: "string \<Rightarrow> string list" where
  "split_spaces s = split_spaces_from False [] s"

text \<open>Decimal numerals, for the index keys of arrays and strings.\<close>

fun digits_of :: "nat \<Rightarrow> string" where
  "digits_of n =
     (if n < 10 then [''0123456789'' ! n]
      else digits_of (n div 10) @ [''0123456789'' ! (n mod 10)])"

text \<open>\<open>Object.keys(v)\<close> for a value other than \<open>null\<close> and \<open>undefined\<close>.\<close>

fun object_keys :: "js \<Rightarrow> string list" where
  "object_keys (JObj kvs) = map fst kvs"
| "object_keys (JArr xs) = map digits_of [0..<length xs]"
| "object_keys (JStr s) = map digits_of [0..<length s]"
| "object_keys v = []"

section \<open>Message classifier\<close>

text \<open>
  A raw inbound message: its key and its payload \<open>message.message\<close>
  (\<open>JUndefined\<close> or \<open>JNull\<close> when the event carries none).
\<close>

record msg_key =
  remoteJid :: string
  participant :: "string option"
  fromMe :: bool
  key_id :: string

record raw_message =
  key :: msg_key
  payload :: js

text \<open>The first key that ends in \<open>Message\<close>, with its first \<open>Message\<close> removed, in upper case.\<close>

fun first_message_key :: "string list \<Rightarrow> string" where
  "first_message_key [] = ''UNKNOWN''"
| "first_message_key (k # ks) =
     (if suffix ''Message'' k then toUpperCase (remove_first ''Message'' k)
      else first_message_key ks)"

definition getMessageType :: "raw_message \<Rightarrow> string" where
  "getMessageType message =
     (let m = payload message in
      if truthy (oget m ''conversation'') then ''TEXT''
      else if truthy (oget m ''extendedTextMessage'') then ''TEXT''
      else if truthy (oget m ''imageMessage'') then ''IMAGE''
      else if truthy (oget m ''videoMessage'') then ''VIDEO''
      else if truthy (oget m ''audioMessage'') then ''AUDIO''
      else if truthy (oget m ''documentMessage'') then ''DOCUMENT''
      else if truthy (oget m ''stickerMessage'') then ''STICKER''
      else if truthy (oget m ''contactMessage'') then ''CONTACT''
      else if truthy (oget m ''locationMessage'') then ''LOCATION''
      else first_message_key (object_keys (js_or m (JObj []))))"

definition getMessageText :: "raw_message \<Rightarrow> string \<Rightarrow> js" where
  "getMessageText message messageType =
     (let m = payload message in
      if messageType = ''TEXT'' then
        js_or (oget m ''conversation'')
          (js_or (oget (oget m ''extendedTextMessage'') ''text'') (JStr ''''))
      else if messageType = ''IMAGE'' then
        js_or (oget (oget m ''imageMessage'') ''caption'') (JStr ''[Image]'')
      else if messageType = ''VIDEO'' then
        js_or (oget (oget m ''videoMessage'') ''caption'') (JStr ''[Video]'')
      else if messageType = ''AUDIO'' then JStr ''[Audio]''
      else if messageType = ''DOCUMENT'' then
        js_or (oget (oget m ''documentMessage'') ''fileName'') (JStr ''[Document]'')
      else if messageType = ''STICKER'' then JStr ''[Sticker]''
      else if messageType = ''CONTACT'' then JStr ''[Contact]''
      else if messageType = ''LOCATION'' then JStr ''[Location]''
      else JStr (''['' @ messageType @ '']''))"

text \<open>
  \<open>getQuotedMessage\<close>: \<open>null\<close> unless the extended text carries a quoted message,
  else the synthetic record built from the quoting context.
\<close>

definition or_jid :: "string option \<Rightarrow> string \<Rightarrow> string" where
  "or_jid p r = (case p of None \<Rightarrow> r | Some x \<Rightarrow> if x = [] then r else x)"

definition getQuotedMessage :: "raw_message \<Rightarrow> js" where
  "getQuotedMessage message =
     (let quoted = oget (oget (payload message) ''extendedTextMessage'') ''contextInfo'' in
      if \<not> truthy (oget quoted ''quotedMessage'') then JNull
      else JObj
        [(''message'', JObj
           [(''key'', JObj
              [(''remoteJid'', js_or (oget quoted ''participant'') (oget quoted ''stanzaId'')),
               (''fromMe'', JBool (oget quoted ''participant'' =
                  JStr (or_jid (participant (key message)) (remoteJid (key message))))),
               (''id'', oget quoted ''stanzaId'')]),
            (''message'', oget quoted ''quotedMessage''),
            (''mtype'', JStr
               (case object_keys (oget quoted ''quotedMessage'') of
                  [] \<Rightarrow> ''text''
                | k # ks \<Rightarrow>
                    (let r = remove_first ''Message'' k in if r = [] then ''text'' else r)))]),
         (''sender'', oget quoted ''participant'')])"

section \<open>Command registry\<close>

text \<open>
  \<open>commands\<close> is a \<open>Map\<close>: an association list in insertion order, \<open>set\<close>
  replacing the value of a key it has and appending a new key (\<^const>\<open>AList.update\<close>),
  \<open>get\<close> is \<^const>\<open>map_of\<close>.
\<close>

type_synonym registry = "(js \<times> js) list"

fun set_aliases :: "registry \<Rightarrow> js list \<Rightarrow> js \<Rightarrow> registry" where
  "set_aliases reg [] commandData = reg"
| "set_aliases reg (alias # rest) commandData =
     set_aliases (AList.update alias commandData reg) rest commandData"

text \<open>One entry of a multi-command module. Reading \<open>pattern\<close> off \<open>null\<close> throws.\<close>

definition register_entry :: "registry \<Rightarrow> js \<Rightarrow> error + registry" where
  "register_entry reg commandData =
     (case get_prop commandData ''pattern'' of
        Inl e \<Rightarrow> Inl e
      | Inr pattern \<Rightarrow>
          if truthy pattern \<and> truthy (oget commandData ''execute'') then
            (let reg1 = AList.update pattern commandData reg in
             case oget commandData ''alias'' of
               JArr aliases \<Rightarrow> Inr (set_aliases reg1 aliases commandData)
             | other \<Rightarrow> Inr reg1)
          else Inr reg)"

text \<open>
  The loop over \<open>Object.entries\<close>. A TypeError leaves the loop for the file's
  \<open>catch\<close>; what was registered before stays.
\<close>

fun register_entries :: "registry \<Rightarrow> js list \<Rightarrow> registry" where
  "register_entries reg [] = reg"
| "register_entries reg (commandData # rest) =
     (case register_entry reg commandData of
        Inl e \<Rightarrow> reg
      | Inr reg1 \<Rightarrow> register_entries reg1 rest)"

fun typeof_object :: "js \<Rightarrow> bool" where
  "typeof_object (JObj kvs) = True"
| "typeof_object (JArr xs) = True"
| "typeof_object JNull = True"
| "typeof_object v = False"

fun object_values :: "js \<Rightarrow> js list" where
  "object_values (JObj kvs) = map snd kvs"
| "object_values (JArr xs) = xs"
| "object_values v = []"

text \<open>The body of the loop over the command files, for the module \<open>require\<close> returned.\<close>

definition load_module :: "registry \<Rightarrow> js \<Rightarrow> registry" where
  "load_module reg commandModule =
     (case get_prop commandModule ''pattern'' of
        Inl e \<Rightarrow> reg
      | Inr pattern \<Rightarrow>
          if truthy pattern \<and> truthy (oget commandModule ''execute'') then
            AList.update pattern commandModule reg
          else if typeof_object commandModule then
            register_entries reg (object_values commandModule)
          else reg)"

text \<open>A file is its name and what \<open>require\<close> gives for it, \<open>None\<close> when it throws.\<close>

fun load_files :: "registry \<Rightarrow> (string \<times> js option) list \<Rightarrow> registry" where
  "load_files reg [] = reg"
| "load_files reg ((file, loaded) # rest) =
     load_files (case loaded of None \<Rightarrow> reg | Some commandModule \<Rightarrow> load_module reg commandModule)
       rest"

definition is_command_file :: "string \<times> js option \<Rightarrow> bool" where
  "is_command_file entry = (suffix ''.js'' (fst entry) \<and> \<not> prefix ''.'' (fst entry))"

text \<open>
  \<open>loadCommands\<close>. The directory listing is \<open>None\<close> when the commands directory does
  not exist. The runtime command comes from a module outside this repository's sources and
  is a parameter; a TypeError on reading its pattern leaves the registry as the files built
  it.
\<close>

definition loadCommands :: "(string \<times> js option) list option \<Rightarrow> js \<Rightarrow> registry" where
  "loadCommands dir runtimeCommand =
     (case dir of
        None \<Rightarrow> []
      | Some files \<Rightarrow>
          (let reg = load_files [] (filter is_command_file files) in
           case get_prop runtimeCommand ''pattern'' of
             Inl e \<Rightarrow> reg
           | Inr pattern \<Rightarrow>
               if truthy pattern \<and> truthy (oget runtimeCommand ''execute'')
               then AList.update pattern runtimeCommand reg else reg))"

definition commands_get :: "registry \<Rightarrow> string \<Rightarrow> js option" where
  "commands_get commands name = map_of commands (JStr name)"

section \<open>Document store\<close>

text \<open>
  The three collections the lifecycle and the dispatcher use. \<open>Session\<close> and
  \<open>UserSettings\<close> carry a unique index on \<open>number\<close> and are maps from the number;
  \<open>PairingCode\<close> has none and is the list of its documents. \<open>ready\<close> is
  \<open>mongoose.connection.readyState === 1\<close>. The date fields are left out, and an
  operation on a ready store succeeds.
\<close>

record session_doc =
  doc_sessionId :: string
  creds :: js
  authState :: js
  settings :: js
  isActive :: bool

record user_settings =
  us_prefix :: string
  autoStatus_seen :: bool
  autoStatus_react :: bool
  autoStatus_reply :: bool
  channels :: "string list"

record store =
  ready :: bool
  Session :: "string \<rightharpoonup> session_doc"
  UserSettings :: "string \<rightharpoonup> user_settings"
  PairingCode :: "(string \<times> string) list"

text \<open>The object \<open>saveSessionToMongo\<close> is called with.\<close>

record session_data =
  sd_creds :: js
  sd_authState :: js
  sd_settings :: js
  sd_isActive :: "bool option"

definition saveSessionToMongo :: "string \<Rightarrow> session_data \<Rightarrow> store \<Rightarrow> store" where
  "saveSessionToMongo number sessionData db =
     (if \<not> ready db then db
      else db\<lparr>Session := (Session db)(number \<mapsto>
             \<lparr>doc_sessionId = number,
              creds = sd_creds sessionData,
              authState = sd_authState sessionData,
              settings = js_or (sd_settings sessionData) (JObj []),
              isActive = True\<rparr>)\<rparr>)"

definition loadSessionFromMongo :: "string \<Rightarrow> store \<Rightarrow> session_data option" where
  "loadSessionFromMongo number db =
     (if \<not> ready db then None
      else case Session db number of
             None \<Rightarrow> None
           | Some session \<Rightarrow>
               if truthy (creds session) then
                 Some \<lparr>sd_creds = creds session,
                       sd_authState = js_or (authState session) (JObj []),
                       sd_settings = js_or (settings session) (JObj []),
                       sd_isActive = None\<rparr>
               else None)"

definition deleteSessionFromMongo :: "string \<Rightarrow> store \<Rightarrow> store" where
  "deleteSessionFromMongo number db =
     (if \<not> ready db then db
      else db\<lparr>Session := (Session db)(number := None),
              UserSettings := (UserSettings db)(number := None)\<rparr>)"

definition savePairingCodeToMongo :: "string \<Rightarrow> string \<Rightarrow> store \<Rightarrow> store" where
  "savePairingCodeToMongo number code db =
     (if \<not> ready db then db
      else db\<lparr>PairingCode := PairingCode db @ [(number, code)]\<rparr>)"

definition getPairingCodeFromMongo :: "string \<Rightarrow> store \<Rightarrow> string option" where
  "getPairingCodeFromMongo number db =
     (if \<not> ready db then None else map_of (PairingCode db) number)"

text \<open>\<open>deleteOne\<close>: the first document that matches goes.\<close>

fun deleteOne :: "string \<Rightarrow> (string \<times> string) list \<Rightarrow> (string \<times> string) list" where
  "deleteOne number [] = []"
| "deleteOne number (d # ds) = (if fst d = number then ds else d # deleteOne number ds)"

definition deletePairingCodeFromMongo :: "string \<Rightarrow> store \<Rightarrow> store" where
  "deletePairingCodeFromMongo number db =
     (if \<not> ready db then db
      else db\<lparr>PairingCode := deleteOne number (PairingCode db)\<rparr>)"

subsection \<open>Settings\<close>

text \<open>The environment variables the settings read.\<close>

record env =
  env_PREFIX :: "string option"
  env_AUTO_STATUS_SEEN :: "string option"
  env_AUTO_STATUS_REACT :: "string option"
  env_AUTO_STATUS_REPLY :: "string option"
  env_CHANNEL_JIDS :: "string list option"

text \<open>\<open>process.env.PREFIX || "."\<close>\<close>

definition PREFIX :: "env \<Rightarrow> string" where
  "PREFIX e = (case env_PREFIX e of None \<Rightarrow> ''.'' | Some p \<Rightarrow> if p = [] then ''.'' else p)"

definition getDefaultSettings :: "env \<Rightarrow> user_settings" where
  "getDefaultSettings e =
     \<lparr>us_prefix = PREFIX e,
      autoStatus_seen = (env_AUTO_STATUS_SEEN e = Some ''true''),
      autoStatus_react = (env_AUTO_STATUS_REACT e = Some ''true''),
      autoStatus_reply = (env_AUTO_STATUS_REPLY e = Some ''true''),
      channels = (case env_CHANNEL_JIDS e of
                    None \<Rightarrow> [''120363399470975987@newsletter'']
                  | Some js \<Rightarrow> js)\<rparr>"

definition loadUserSettingsFromMongo :: "env \<Rightarrow> string \<Rightarrow> store \<Rightarrow> user_settings" where
  "loadUserSettingsFromMongo e number db =
     (if \<not> ready db then getDefaultSettings e
      else case UserSettings db number of
             Some s \<Rightarrow> s
           | None \<Rightarrow> getDefaultSettings e)"

text \<open>
  \<open>saveUserSettingsToMongo(number, {prefix})\<close>: an upsert; a new document takes the
  schema's defaults for the other fields.
\<close>

definition saveUserSettingsToMongo :: "string \<Rightarrow> string \<Rightarrow> store \<Rightarrow> store" where
  "saveUserSettingsToMongo number newPrefix db =
     (if \<not> ready db then db
      else db\<lparr>UserSettings := (UserSettings db)(number \<mapsto>
             (case UserSettings db number of
                Some s \<Rightarrow> s\<lparr>us_prefix := newPrefix\<rparr>
              | None \<Rightarrow> \<lparr>us_prefix = newPrefix, autoStatus_seen = True,
                         autoStatus_react = True, autoStatus_reply = True, channels = []\<rparr>))\<rparr>)"

text \<open>\<open>UserSettings.prefix || PREFIX\<close>\<close>

definition effective_prefix :: "env \<Rightarrow> string \<Rightarrow> store \<Rightarrow> string" where
  "effective_prefix e sessionId db =
     (let p = us_prefix (loadUserSettingsFromMongo e sessionId db)
      in if p = [] then PREFIX e else p)"

section \<open>Transport and effects\<close>

record participant_info =
  p_id :: string
  admin :: "string option"

record group_metadata =
  subject :: string
  participants :: "participant_info list"

text \<open>
  The texts the bot sends are decorated templates; each is a constructor, with the parts
  that vary as arguments.
\<close>

datatype content =
    NewsletterPing
  | PingBanner
  | PingReaction
  | PingDetails
  | MenuText string
  | CommandReceived string
  | OwnerOnly
  | PrefixUpdated string
  | CurrentPrefix string
  | StatusReaction
  | OnlyInGroups
  | FailedGroupInfo
  | OnlyAdmins
  | MentionOrReply
  | ReactSuccess
  | Promoted string
  | ReactFail
  | FailedToPromote

text \<open>What a plugin's \<open>execute\<close> receives: \<open>m\<close> and the context object.\<close>

record m_info =
  mentionedJid :: js
  quoted :: js
  m_sender :: string

record invocation_context =
  args :: "string list"
  q :: string
  fromJid :: string
  isGroup :: bool
  groupMetadata :: "group_metadata option"
  sender :: string
  isAdmins :: bool
  isCreator :: bool

text \<open>
  The calls the code makes on the transport, the store and a plugin, in the order it makes
  them. Console output is not recorded.
\<close>

datatype effect =
    SendMessage string content
  | NewsletterSend string content
  | SendStatusReply "string option"
  | ReadMessages msg_key
  | StatusMediaSet "string option"
  | SaveUserSettings string string
  | OnGroupParticipantsUpdate
  | Execute js m_info invocation_context
  | GroupParticipantsUpdate string "js list" string

text \<open>
  The connection handle as the code uses it: the account's identifier \<open>conn.user.id\<close>,
  whether \<open>conn.newsletterSend\<close> exists, what \<open>conn.groupMetadata\<close> answers
  (\<open>None\<close> when it rejects), and which calls reject.
\<close>

record conn =
  user_id :: string
  newsletterSend :: bool
  fetch_groupMetadata :: "string \<Rightarrow> group_metadata option"
  rejects :: "effect \<Rightarrow> bool"

text \<open>
  Awaited calls in sequence: the first that rejects throws, and the calls after it are
  not made. The result says whether all of them returned.
\<close>

fun awaits :: "conn \<Rightarrow> effect list \<Rightarrow> bool \<times> effect list" where
  "awaits c [] = (True, [])"
| "awaits c (x # xs) =
     (if rejects c x then (False, [x])
      else (fst (awaits c xs), x # snd (awaits c xs)))"

section \<open>Command resolver and dispatcher\<close>

text \<open>
  \<open>generateMenu\<close> throws when a registered command has \<open>tags\<close> that are not an array
  (\<open>cmd.tags.forEach\<close>); its text is not modelled.
\<close>

fun is_array :: "js \<Rightarrow> bool" where
  "is_array (JArr xs) = True"
| "is_array v = False"

definition generateMenu_throws :: "registry \<Rightarrow> bool" where
  "generateMenu_throws commands =
     list_ex (\<lambda>entry. truthy (oget (snd entry) ''tags'') \<and> \<not> is_array (oget (snd entry) ''tags''))
       commands"

definition newsletter_send :: "conn \<Rightarrow> string \<Rightarrow> content \<Rightarrow> effect" where
  "newsletter_send c jid x = (if newsletterSend c then NewsletterSend jid x else SendMessage jid x)"

text \<open>
  \<open>handleBuiltInCommands\<close>: whether the command was handled, the calls made, the store
  afterwards. A call that rejects is caught by the outer \<open>try\<close>, which answers
  \<open>false\<close>; in the newsletter branch each send has its own \<open>try\<close> and the answer is
  \<open>true\<close>.
\<close>

definition handleBuiltInCommands ::
  "env \<Rightarrow> registry \<Rightarrow> conn \<Rightarrow> raw_message \<Rightarrow> string \<Rightarrow> string list \<Rightarrow> string \<Rightarrow> store
     \<Rightarrow> bool \<times> effect list \<times> store" where
  "handleBuiltInCommands e commands c message commandName args' sessionId db =
     (let userPrefix = effective_prefix e sessionId db;
          from = remoteJid (key message)
      in
      if suffix ''@newsletter'' from then
        (if commandName = ''ping'' then
           (True, snd (awaits c [newsletter_send c from NewsletterPing]), db)
         else if commandName = ''menu'' \<or> commandName = ''help'' \<or> commandName = ''nyoni'' then
           (True,
            (if generateMenu_throws commands then []
             else snd (awaits c [newsletter_send c from (MenuText userPrefix)])), db)
         else
           (True,
            (if newsletterSend c
             then snd (awaits c [NewsletterSend from (CommandReceived commandName)])
             else []), db))
      else if commandName = ''ping'' \<or> commandName = ''speed'' then
        (let r = awaits c [SendMessage from PingBanner, SendMessage from PingReaction,
                           SendMessage from PingDetails]
         in (fst r, snd r, db))
      else if commandName = ''prefix'' then
        (let ownerJid = user_id c;
             messageSenderJid = or_jid (participant (key message)) (remoteJid (key message))
         in
         if messageSenderJid \<noteq> ownerJid \<and>
            \<not> str_includes messageSenderJid (split_first (CHR '':'') ownerJid) then
           (let r = awaits c [SendMessage from OwnerOnly] in (fst r, snd r, db))
         else
           (case args' of
              newPrefix # rest \<Rightarrow>
                (let r = awaits c [SendMessage from (PrefixUpdated newPrefix)]
                 in (fst r, SaveUserSettings sessionId newPrefix # snd r,
                     saveUserSettingsToMongo sessionId newPrefix db))
            | [] \<Rightarrow>
                (let r = awaits c [SendMessage from (CurrentPrefix userPrefix)]
                 in (fst r, snd r, db))))
      else if commandName = ''menu'' \<or> commandName = ''help'' \<or> commandName = ''nyoni'' then
        (if generateMenu_throws commands then (False, [], db)
         else (let r = awaits c [SendMessage from (MenuText userPrefix)] in (fst r, snd r, db)))
      else (False, [], db))"

text \<open>The status branch of \<open>handleMessage\<close>; its sends carry their own \<open>catch\<close>.\<close>

definition handleStatus :: "env \<Rightarrow> raw_message \<Rightarrow> string \<Rightarrow> store \<Rightarrow> effect list" where
  "handleStatus e message sessionId db =
     (let us = loadUserSettingsFromMongo e sessionId db in
      (if autoStatus_seen us then [ReadMessages (key message)] else []) @
      (if autoStatus_react us then [SendMessage (remoteJid (key message)) StatusReaction] else []) @
      (if autoStatus_reply us then [SendStatusReply (participant (key message))] else []) @
      (if truthy (payload message) \<and>
          (truthy (oget (payload message) ''imageMessage'') \<or>
           truthy (oget (payload message) ''videoMessage''))
       then [StatusMediaSet (participant (key message))] else []))"

definition is_admin_rank :: "participant_info option \<Rightarrow> bool" where
  "is_admin_rank found =
     (case found of
        None \<Rightarrow> False
      | Some p \<Rightarrow> admin p = Some ''admin'' \<or> admin p = Some ''superadmin'')"

definition is_superadmin_rank :: "participant_info option \<Rightarrow> bool" where
  "is_superadmin_rank found =
     (case found of None \<Rightarrow> False | Some p \<Rightarrow> admin p = Some ''superadmin'')"

text \<open>
  The plugin branch of \<open>handleMessage\<close>, for the command found in the registry: the
  group metadata is fetched for a group chat, a rejection leaves it \<open>null\<close>; the context
  is built and \<open>execute\<close> is called. What the plugin does, and whether it throws, is
  the plugin's.
\<close>

definition invoke_plugin ::
  "conn \<Rightarrow> raw_message \<Rightarrow> js \<Rightarrow> string \<Rightarrow> string \<Rightarrow> string \<Rightarrow> string list \<Rightarrow> effect list" where
  "invoke_plugin c message command body userPrefix commandName args' =
     (let from = remoteJid (key message);
          isGroup' = suffix ''@g.us'' from;
          groupMetadata' = (if isGroup' then fetch_groupMetadata c from else None);
          m = \<lparr>mentionedJid =
                 js_or (oget (oget (oget (payload message) ''extendedTextMessage'')
                          ''contextInfo'') ''mentionedJid'') (JArr []),
               quoted = getQuotedMessage message,
               m_sender = or_jid (participant (key message)) (remoteJid (key message))\<rparr>;
          q' = trim (drop (length userPrefix + length commandName) body);
          found = (case groupMetadata' of
                     None \<Rightarrow> None
                   | Some md \<Rightarrow> find (\<lambda>p. p_id p = m_sender m) (participants md))
      in
      [OnGroupParticipantsUpdate,
       Execute command m
         \<lparr>args = args', q = q', fromJid = from, isGroup = isGroup',
          groupMetadata = groupMetadata',
          sender = or_jid (participant (key message)) (remoteJid (key message)),
          isAdmins = (isGroup' \<and> is_admin_rank found),
          isCreator = (isGroup' \<and> is_superadmin_rank found)\<rparr>])"

text \<open>
  \<open>handleMessage\<close>: the calls made and the store afterwards. A body that is not a
  string has no \<open>startsWith\<close>: the TypeError is caught and logged.
\<close>

definition handleMessage ::
  "env \<Rightarrow> registry \<Rightarrow> conn \<Rightarrow> raw_message \<Rightarrow> string \<Rightarrow> store \<Rightarrow> effect list \<times> store" where
  "handleMessage e commands c message sessionId db =
     (if remoteJid (key message) = ''status@broadcast'' then
        (handleStatus e message sessionId db, db)
      else if \<not> truthy (payload message) then ([], db)
      else
        (case getMessageText message (getMessageType message) of
           JStr body \<Rightarrow>
             (let userPrefix = effective_prefix e sessionId db in
              if \<not> prefix userPrefix body then ([], db)
              else
                (case split_spaces (trim (drop (length userPrefix) body)) of
                   [] \<Rightarrow> ([], db)
                 | first # args' \<Rightarrow>
                     (let commandName = toLowerCase first;
                          r = handleBuiltInCommands e commands c message commandName args'
                                sessionId db
                      in
                      if fst r then (fst (snd r), snd (snd r))
                      else
                        (case commands_get commands commandName of
                           None \<Rightarrow> (fst (snd r), snd (snd r))
                         | Some command \<Rightarrow>
                             (fst (snd r) @
                              invoke_plugin c message command body userPrefix commandName args',
                              snd (snd r))))))
         | other \<Rightarrow> ([], db)))"

section \<open>The promote plugin\<close>

text \<open>\<open>m.mentionedJid && m.mentionedJid.length > 0\<close>, and then \<open>m.mentionedJid[0]\<close>.\<close>

fun first_mentioned :: "js \<Rightarrow> js option" where
  "first_mentioned (JArr (x # xs)) = Some x"
| "first_mentioned (JStr (ch # cs)) = Some (JStr [ch])"
| "first_mentioned (JObj kvs) =
     (case oget (JObj kvs) ''length'' of
        JNum n \<Rightarrow> if 0 < n then Some (oget (JObj kvs) ''0'') else None
      | other \<Rightarrow> None)"
| "first_mentioned v = None"

definition promote_target :: "m_info \<Rightarrow> js" where
  "promote_target m =
     (case first_mentioned (mentionedJid m) of
        Some t \<Rightarrow> t
      | None \<Rightarrow> if truthy (quoted m) then oget (quoted m) ''sender'' else JNull)"

fun is_string :: "js \<Rightarrow> bool" where
  "is_string (JStr t) = True"
| "is_string v = False"

text \<open>
  \<open>execute\<close> of \<open>promote.js\<close>: the calls it makes. \<open>reply\<close> is the helper the
  dispatcher binds to the triggering message, a \<open>sendMessage\<close> to its chat. A call that
  rejects inside the \<open>try\<close>, or \<open>target.split\<close> on a target that is no string, goes to
  the \<open>catch\<close>, which sends the failure reaction and text.
\<close>

definition promote_execute ::
  "conn \<Rightarrow> raw_message \<Rightarrow> m_info \<Rightarrow> invocation_context \<Rightarrow> effect list" where
  "promote_execute c message m ctx =
     (let from = fromJid ctx;
          reply = SendMessage (remoteJid (key message))
      in
      if \<not> isGroup ctx then [reply OnlyInGroups]
      else
        (case fetch_groupMetadata c from of
           None \<Rightarrow> [reply FailedGroupInfo]
         | Some metadata \<Rightarrow>
             (let found = find (\<lambda>p. p_id p = sender ctx) (participants metadata);
                  isAdmin = is_admin_rank found;
                  isOwner = (split_first (CHR '':'') (user_id c) =
                             split_first (CHR ''@'') (sender ctx))
              in
              if \<not> isAdmin \<and> \<not> isOwner then [reply OnlyAdmins]
              else
                (let target = promote_target m in
                 if \<not> truthy target then [reply MentionOrReply]
                 else
                   (let r = awaits c
                              ([SendMessage from ReactSuccess,
                                GroupParticipantsUpdate from [target] ''promote''] @
                               (case target of
                                  JStr t \<Rightarrow> [SendMessage from (Promoted (split_first (CHR ''@'') t))]
                                | other \<Rightarrow> []))
                    in
                    if fst r \<and> is_string target then snd r
                    else snd r @
                         snd (awaits c [SendMessage from ReactFail,
                                        SendMessage from FailedToPromote]))))))"

definition is_participants_update :: "effect \<Rightarrow> bool" where
  "is_participants_update x =
     (case x of GroupParticipantsUpdate jid targets action \<Rightarrow> True | other \<Rightarrow> False)"

section \<open>Connection lifecycle\<close>

datatype connection_state = Open | Close | Connecting

text \<open>
  A \<open>connection.update\<close> event: \<open>connection\<close>, the status code
  \<open>lastDisconnect?.error?.output?.statusCode\<close>, and whether it carries a QR code.
\<close>

record update =
  connection :: "connection_state option"
  statusCode :: "int option"
  qr :: bool

text \<open>
  The variables \<open>setupConnectionHandlers\<close> declares: each call makes a closure of its
  own, for the socket it is given.
\<close>

record handler =
  handler_session :: string
  hasShownConnectedMessage :: bool
  isLoggedOut :: bool
  reconnectAttempts :: nat

datatype task = Welcome nat | Reconnect string | LogoutCleanup string

datatype emitted = StatsUpdate int int | Linked string | Unlinked string

text \<open>
  The process state: the counters, the table of active connections (the socket of each
  number), the closures of the sockets made so far, the store, every timer set so far
  (delay in milliseconds and task) and what was emitted to the dashboard.
\<close>

record state =
  activeSockets :: int
  totalUsers :: int
  isUserLoggedIn :: bool
  activeConnections :: "string \<rightharpoonup> nat"
  handlers :: "nat \<rightharpoonup> handler"
  sockets_made :: nat
  db :: store
  timers :: "(nat \<times> task) list"
  emits :: "emitted list"

definition MAX_RECONNECT_ATTEMPTS :: nat where
  "MAX_RECONNECT_ATTEMPTS = 3"

definition setupConnectionHandlers :: "nat \<Rightarrow> string \<Rightarrow> state \<Rightarrow> state" where
  "setupConnectionHandlers h sid s =
     s\<lparr>handlers := (handlers s)(h \<mapsto>
         \<lparr>handler_session = sid, hasShownConnectedMessage = False, isLoggedOut = False,
          reconnectAttempts = 0\<rparr>)\<rparr>"

text \<open>
  \<open>initializeConnection\<close>. \<open>socket_ok\<close> says that fetching the protocol version and
  making the socket succeed; when they throw, the \<open>catch\<close> removes the table entry.
\<close>

definition initializeConnection :: "bool \<Rightarrow> string \<Rightarrow> state \<Rightarrow> state" where
  "initializeConnection socket_ok sid s =
     (case loadSessionFromMongo sid (db s) of
        None \<Rightarrow> s
      | Some sessionData \<Rightarrow>
          if socket_ok then
            setupConnectionHandlers (sockets_made s) sid
              (s\<lparr>sockets_made := sockets_made s + 1,
                 activeConnections := (activeConnections s)(sid \<mapsto> sockets_made s)\<rparr>)
          else s\<lparr>activeConnections := (activeConnections s)(sid := None)\<rparr>)"

definition on_open :: "nat \<Rightarrow> handler \<Rightarrow> state \<Rightarrow> state" where
  "on_open h cl s =
     s\<lparr>isUserLoggedIn := True,
        activeSockets := activeSockets s + 1,
        handlers := (handlers s)(h \<mapsto>
          cl\<lparr>isLoggedOut := False, reconnectAttempts := 0, hasShownConnectedMessage := True\<rparr>),
        emits := emits s @ [StatsUpdate (activeSockets s + 1) (totalUsers s),
                            Linked (handler_session cl)],
        timers := timers s @ (if hasShownConnectedMessage cl then [] else [(2000, Welcome h)])\<rparr>"

text \<open>
  The \<open>close\<close> branch. \<open>loggedOut\<close> is the transport library's
  \<open>DisconnectReason.loggedOut\<close>, a parameter.
\<close>

definition on_close :: "int \<Rightarrow> nat \<Rightarrow> handler \<Rightarrow> int option \<Rightarrow> state \<Rightarrow> state" where
  "on_close loggedOut h cl code s =
     (let shouldReconnect = (code \<noteq> Some loggedOut);
          sid = handler_session cl
      in
      if shouldReconnect \<and> reconnectAttempts cl < MAX_RECONNECT_ATTEMPTS then
        s\<lparr>handlers := (handlers s)(h \<mapsto>
             cl\<lparr>reconnectAttempts := reconnectAttempts cl + 1,
                hasShownConnectedMessage := False\<rparr>),
           timers := timers s @ [((reconnectAttempts cl + 1) * 5000, Reconnect sid)]\<rparr>
      else
        s\<lparr>isUserLoggedIn := False,
           activeSockets := max 0 (activeSockets s - 1),
           handlers := (handlers s)(h \<mapsto> cl\<lparr>isLoggedOut := True\<rparr>),
           emits := emits s @ [StatsUpdate (max 0 (activeSockets s - 1)) (totalUsers s),
                               Unlinked sid],
           timers := timers s @
             (if code = Some loggedOut then [(3000, LogoutCleanup sid)] else []),
           db := (if code = Some loggedOut then db s
                  else saveSessionToMongo sid
                         \<lparr>sd_creds = JNull, sd_authState = JNull, sd_settings = JObj [],
                          sd_isActive = Some False\<rparr> (db s)),
           activeConnections := (activeConnections s)(sid := None)\<rparr>)"

text \<open>The \<open>connection.update\<close> listener of socket \<open>h\<close>.\<close>

definition on_connection_update :: "int \<Rightarrow> nat \<Rightarrow> update \<Rightarrow> state \<Rightarrow> state" where
  "on_connection_update loggedOut h u s =
     (case handlers s h of
        None \<Rightarrow> s
      | Some cl \<Rightarrow>
          if qr u then s\<lparr>handlers := (handlers s)(h \<mapsto> cl\<lparr>hasShownConnectedMessage := False\<rparr>)\<rparr>
          else
            (case connection u of
               None \<Rightarrow> s
             | Some Open \<Rightarrow> on_open h cl s
             | Some Close \<Rightarrow> on_close loggedOut h cl (statusCode u) s
             | Some Connecting \<Rightarrow>
                 s\<lparr>handlers := (handlers s)(h \<mapsto> cl\<lparr>hasShownConnectedMessage := False\<rparr>)\<rparr>))"

text \<open>
  The \<open>creds.update\<close> listener of socket \<open>h\<close>, with the socket's credentials and auth
  state; when \<open>saveCreds\<close> throws the store is not written.
\<close>

definition on_creds_update :: "nat \<Rightarrow> bool \<Rightarrow> js \<Rightarrow> js \<Rightarrow> state \<Rightarrow> state" where
  "on_creds_update h saveCreds_ok creds' authState' s =
     (case handlers s h of
        None \<Rightarrow> s
      | Some cl \<Rightarrow>
          if saveCreds_ok then
            s\<lparr>db := saveSessionToMongo (handler_session cl)
                      \<lparr>sd_creds = creds', sd_authState = authState', sd_settings = JObj [],
                       sd_isActive = Some True\<rparr> (db s)\<rparr>
          else s)"

text \<open>
  What a timer does when it fires. The welcome task only talks to the transport; the
  session folder that the cleanup removes is not modelled.
\<close>

fun fire :: "bool \<Rightarrow> task \<Rightarrow> state \<Rightarrow> state" where
  "fire socket_ok (Welcome h) s = s"
| "fire socket_ok (Reconnect sid) s =
     (if activeConnections s sid \<noteq> None then initializeConnection socket_ok sid s else s)"
| "fire socket_ok (LogoutCleanup sid) s =
     s\<lparr>db := deletePairingCodeFromMongo sid (deleteSessionFromMongo sid (db s))\<rparr>"

text \<open>
  \<open>reloadExistingSessions\<close>. \<open>order\<close> is the order in which the store enumerates the
  numbers of the Session collection.
\<close>

definition find_active :: "string list \<Rightarrow> store \<Rightarrow> (string \<times> session_doc) list" where
  "find_active order d =
     List.map_filter
       (\<lambda>n. case Session d n of
               None \<Rightarrow> None
             | Some doc \<Rightarrow> if isActive doc then Some (n, doc) else None) order"

fun reload_loop :: "bool \<Rightarrow> (string \<times> session_doc) list \<Rightarrow> state \<Rightarrow> state" where
  "reload_loop socket_ok [] s = s"
| "reload_loop socket_ok ((number, session) # rest) s =
     reload_loop socket_ok rest
       (if truthy (creds session) then
          (let s1 = initializeConnection socket_ok number s
           in s1\<lparr>activeSockets := activeSockets s1 + 1\<rparr>)
        else s)"

definition reloadExistingSessions :: "bool \<Rightarrow> string list \<Rightarrow> state \<Rightarrow> state" where
  "reloadExistingSessions socket_ok order s =
     (if \<not> ready (db s) then s
      else
        (let s1 = reload_loop socket_ok (find_active order (db s)) s
         in s1\<lparr>emits := emits s1 @ [StatsUpdate (activeSockets s1) (totalUsers s1)]\<rparr>))"

text \<open>
  \<open>POST /api/pair\<close>. \<open>socket_ok\<close> as above; \<open>code\<close> is what
  \<open>requestPairingCode\<close> answers, \<open>None\<close> when it rejects. The file-based auth state
  of a new user is taken to load.
\<close>

datatype response = PairOk string bool | Status400 | Status500

definition is_digit :: "char \<Rightarrow> bool" where
  "is_digit ch = (ch \<in> set ''0123456789'')"

definition api_pair :: "string \<Rightarrow> bool \<Rightarrow> string option \<Rightarrow> state \<Rightarrow> response \<times> state" where
  "api_pair number socket_ok code s =
     (if number = [] then (Status400, s)
      else
        (let normalizedNumber = filter is_digit number;
             isNewUser = (loadSessionFromMongo normalizedNumber (db s) = None);
             s1 = (if isNewUser then s\<lparr>totalUsers := totalUsers s + 1\<rparr> else s)
         in
         if \<not> socket_ok then (Status500, s1)
         else
           (let h = sockets_made s1;
                s2 = setupConnectionHandlers h normalizedNumber
                       (s1\<lparr>sockets_made := h + 1,
                           activeConnections := (activeConnections s1)(normalizedNumber \<mapsto> h),
                           emits := emits s1 @ [StatsUpdate (activeSockets s1) (totalUsers s1)]\<rparr>)
            in
            if isNewUser then
              (case code of
                 None \<Rightarrow> (Status500, s2)
               | Some pairingCode \<Rightarrow>
                   (PairOk pairingCode True,
                    s2\<lparr>db := savePairingCodeToMongo normalizedNumber pairingCode (db s2)\<rparr>))
            else
              (PairOk
                 (case getPairingCodeFromMongo normalizedNumber (db s2) of
                    None \<Rightarrow> ''Already connected''
                  | Some stored \<Rightarrow> if stored = [] then ''Already connected'' else stored)
                 False, s2))))"

subsection \<open>Runs\<close>

text \<open>
  The events that drive the process state, and a run of them from the state at start-up:
  no connection, both counters as the module initialises them (\<open>totalUsers\<close> as loaded
  from the stored statistics).
\<close>

datatype event =
    ConnectionUpdate nat update
  | CredsUpdate nat bool js js
  | TimerFires bool task
  | ApiPair string bool "string option"
  | ReloadExistingSessions bool "string list"

fun step :: "int \<Rightarrow> event \<Rightarrow> state \<Rightarrow> state" where
  "step loggedOut (ConnectionUpdate h u) s = on_connection_update loggedOut h u s"
| "step loggedOut (CredsUpdate h ok creds' authState') s = on_creds_update h ok creds' authState' s"
| "step loggedOut (TimerFires ok t) s = fire ok t s"
| "step loggedOut (ApiPair number ok code) s = snd (api_pair number ok code s)"
| "step loggedOut (ReloadExistingSessions ok order) s = reloadExistingSessions ok order s"

fun run :: "int \<Rightarrow> event list \<Rightarrow> state \<Rightarrow> state" where
  "run loggedOut [] s = s"
| "run loggedOut (ev # evs) s = run loggedOut evs (step loggedOut ev s)"

definition initial_state :: "int \<Rightarrow> store \<Rightarrow> state" where
  "initial_state users d =
     \<lparr>activeSockets = 0, totalUsers = users, isUserLoggedIn = False,
      activeConnections = Map.empty, handlers = Map.empty, sockets_made = 0, db = d,
      timers = [], emits = []\<rparr>"

section \<open>The active-connection counter\<close>

lemma activeSockets_setupConnectionHandlers [simp]:
  "activeSockets (setupConnectionHandlers h sid s) = activeSockets s"
  by (simp add: setupConnectionHandlers_def)

lemma activeSockets_initializeConnection [simp]:
  "activeSockets (initializeConnection ok sid s) = activeSockets s"
  by (simp add: initializeConnection_def split: option.split)

lemma activeSockets_reload_loop:
  "activeSockets s \<le> activeSockets (reload_loop ok found s)"
proof (induction found arbitrary: s)
  case Nil
  then show ?case by simp
next
  case (Cons x found)
  obtain number session where x: "x = (number, session)" by (cases x)
  show ?case
  proof (cases "truthy (creds session)")
    case True
    let ?s1 = "initializeConnection ok number s"
    have "activeSockets s \<le> activeSockets (?s1\<lparr>activeSockets := activeSockets ?s1 + 1\<rparr>)"
      by simp
    also have "\<dots> \<le> activeSockets (reload_loop ok found (?s1\<lparr>activeSockets := activeSockets ?s1 + 1\<rparr>))"
      by (rule Cons.IH)
    finally show ?thesis using True x by (simp add: Let_def)
  next
    case False
    then show ?thesis using Cons.IH [of s] x by simp
  qed
qed

lemma activeSockets_connection_update:
  "activeSockets (on_connection_update lo h u s) = max 0 (activeSockets s - 1) \<or>
   activeSockets s \<le> activeSockets (on_connection_update lo h u s)"
  by (simp add: on_connection_update_def on_open_def on_close_def Let_def
      split: option.split connection_state.split)

lemma activeSockets_fire [simp]: "activeSockets (fire ok t s) = activeSockets s"
  by (cases t) simp_all

lemma activeSockets_creds_update [simp]:
  "activeSockets (on_creds_update h ok c a s) = activeSockets s"
  by (simp add: on_creds_update_def split: option.split)

lemma activeSockets_api_pair [simp]:
  "activeSockets (snd (api_pair number ok code s)) = activeSockets s"
  by (simp add: api_pair_def Let_def split: option.split)

lemma activeSockets_reload:
  "activeSockets s \<le> activeSockets (reloadExistingSessions ok order s)"
  using activeSockets_reload_loop [of s ok "find_active order (db s)"]
  by (simp add: reloadExistingSessions_def Let_def)

lemma activeSockets_step:
  "activeSockets (step lo ev s) = max 0 (activeSockets s - 1) \<or>
   activeSockets s \<le> activeSockets (step lo ev s)"
  by (cases ev) (simp_all add: activeSockets_connection_update activeSockets_reload)

lemma activeSockets_step_nonneg:
  assumes "0 \<le> activeSockets s"
  shows "0 \<le> activeSockets (step lo ev s)"
  using activeSockets_step [of lo ev s] assms by auto

lemma activeSockets_run_nonneg:
  "0 \<le> activeSockets s \<Longrightarrow> 0 \<le> activeSockets (run lo evs s)"
  by (induction evs arbitrary: s) (simp_all add: activeSockets_step_nonneg)

text \<open>
  Claim C10. The counter \<open>activeSockets\<close> is never negative in a run from start-up, and
  every transition either sets it to \<open>max 0 (activeSockets - 1)\<close> or leaves it at least
  as large as it was.
\<close>

theorem activeSockets_never_negative:
  "0 \<le> activeSockets (run lo evs (initial_state users d)) \<and>
   (activeSockets (step lo ev s) = max 0 (activeSockets s - 1) \<or>
    activeSockets s \<le> activeSockets (step lo ev s))"
proof
  have "0 \<le> activeSockets (initial_state users d)"
    by (simp add: initial_state_def)
  then show "0 \<le> activeSockets (run lo evs (initial_state users d))"
    by (rule activeSockets_run_nonneg)
  show "activeSockets (step lo ev s) = max 0 (activeSockets s - 1) \<or>
    activeSockets s \<le> activeSockets (step lo ev s)"
    by (rule activeSockets_step)
qed

section \<open>Session lifecycle: scenarios and properties\<close>

text \<open>
  A paired number: its Session document holds credentials, it has settings of its own and
  one pairing code.
\<close>

definition number0 :: string where
  "number0 = ''15551234567''"

definition paired_doc :: session_doc where
  "paired_doc =
     \<lparr>doc_sessionId = number0, creds = JObj [(''registered'', JBool True)],
      authState = JObj [(''keys'', JObj [])], settings = JObj [], isActive = True\<rparr>"

definition paired_store :: store where
  "paired_store =
     \<lparr>ready = True,
      Session = [number0 \<mapsto> paired_doc],
      UserSettings = [number0 \<mapsto> \<lparr>us_prefix = ''!'', autoStatus_seen = True,
         autoStatus_react = False, autoStatus_reply = False, channels = []\<rparr>],
      PairingCode = [(number0, ''ABCD1234'')]\<rparr>"

definition close_update :: "int \<Rightarrow> update" where
  "close_update code = \<lparr>connection = Some Close, statusCode = Some code, qr = False\<rparr>"

definition open_update :: update where
  "open_update = \<lparr>connection = Some Open, statusCode = None, qr = False\<rparr>"

definition cap_exhausted_run :: "event list" where
  "cap_exhausted_run =
     [ApiPair number0 True None, ConnectionUpdate 0 open_update,
      ConnectionUpdate 0 (close_update 428), ConnectionUpdate 0 (close_update 428),
      ConnectionUpdate 0 (close_update 428), ConnectionUpdate 0 (close_update 428)]"

lemmas lifecycle_defs =
  number0_def paired_doc_def paired_store_def close_update_def open_update_def
  initial_state_def api_pair_def is_digit_def loadSessionFromMongo_def
  setupConnectionHandlers_def on_connection_update_def on_open_def on_close_def
  MAX_RECONNECT_ATTEMPTS_def saveSessionToMongo_def js_or_def getPairingCodeFromMongo_def
  initializeConnection_def deleteSessionFromMongo_def deletePairingCodeFromMongo_def
  savePairingCodeToMongo_def

definition flapping_run :: "event list" where
  "flapping_run =
     [ApiPair number0 True None, ConnectionUpdate 0 open_update,
      ConnectionUpdate 0 (close_update 428), TimerFires True (Reconnect number0),
      ConnectionUpdate 1 (close_update 428), TimerFires True (Reconnect number0),
      ConnectionUpdate 2 (close_update 428), TimerFires True (Reconnect number0),
      ConnectionUpdate 3 (close_update 428)]"




subsection \<open>One socket's closure\<close>

text \<open>
  Within the closure of one socket, a close that is not a logout and comes after fewer
  than three attempts counts one attempt more and sets the reconnect timer to 5000 ms
  times the new count; a logout, or a close after three attempts, ends the session.
\<close>

lemma on_close_reconnects:
  assumes "code \<noteq> Some lo" and "reconnectAttempts cl < 3"
  shows "timers (on_close lo h cl code s) =
           timers s @ [((reconnectAttempts cl + 1) * 5000, Reconnect (handler_session cl))]"
    and "map_option reconnectAttempts (handlers (on_close lo h cl code s) h) =
           Some (reconnectAttempts cl + 1)"
    and "activeConnections (on_close lo h cl code s) = activeConnections s"
  using assms by (simp_all add: on_close_def MAX_RECONNECT_ATTEMPTS_def Let_def)

lemma on_close_terminates:
  assumes "code = Some lo \<or> 3 \<le> reconnectAttempts cl"
  shows "activeConnections (on_close lo h cl code s) (handler_session cl) = None"
    and "map_option reconnectAttempts (handlers (on_close lo h cl code s) h) =
           Some (reconnectAttempts cl)"
  using assms by (auto simp add: on_close_def MAX_RECONNECT_ATTEMPTS_def Let_def)

text \<open>
  In every run from start-up, no closure's counter exceeds three.
\<close>

definition attempts_bounded :: "state \<Rightarrow> bool" where
  "attempts_bounded s =
     (\<forall>h cl. handlers s h = Some cl \<longrightarrow> reconnectAttempts cl \<le> MAX_RECONNECT_ATTEMPTS)"

lemma attempts_bounded_initializeConnection:
  "attempts_bounded s \<Longrightarrow> attempts_bounded (initializeConnection ok sid s)"
  by (auto simp add: attempts_bounded_def initializeConnection_def setupConnectionHandlers_def
      split: option.splits)

lemma attempts_bounded_activeSockets [simp]:
  "attempts_bounded (s\<lparr>activeSockets := n\<rparr>) = attempts_bounded s"
  by (simp add: attempts_bounded_def)

lemma attempts_bounded_emits [simp]:
  "attempts_bounded (s\<lparr>emits := n\<rparr>) = attempts_bounded s"
  by (simp add: attempts_bounded_def)

lemma attempts_bounded_reload_loop:
  "attempts_bounded s \<Longrightarrow> attempts_bounded (reload_loop ok found s)"
proof (induction found arbitrary: s)
  case Nil
  then show ?case by simp
next
  case (Cons x found)
  obtain number session where x: "x = (number, session)" by (cases x)
  show ?case
    using Cons.prems x
    by (auto simp add: Let_def intro!: Cons.IH attempts_bounded_initializeConnection)
qed

lemma attempts_bounded_step:
  assumes "attempts_bounded s"
  shows "attempts_bounded (step lo ev s)"
proof (cases ev)
  case (ConnectionUpdate h u)
  then show ?thesis
    using assms
    by (auto simp add: attempts_bounded_def on_connection_update_def on_open_def on_close_def
        MAX_RECONNECT_ATTEMPTS_def Let_def split: option.splits connection_state.splits)
next
  case (CredsUpdate h ok c a)
  then show ?thesis
    using assms by (auto simp add: attempts_bounded_def on_creds_update_def split: option.splits)
next
  case (TimerFires ok t)
  then show ?thesis
    using assms attempts_bounded_initializeConnection
    by (cases t) (auto simp add: attempts_bounded_def)
next
  case (ApiPair number ok code)
  then show ?thesis
    using assms
    by (auto simp add: attempts_bounded_def api_pair_def setupConnectionHandlers_def Let_def
        split: option.splits)
next
  case (ReloadExistingSessions ok order)
  then show ?thesis
    using assms attempts_bounded_reload_loop [of s ok "find_active order (db s)"]
    by (simp add: reloadExistingSessions_def Let_def)
qed

lemma attempts_bounded_run:
  "attempts_bounded s \<Longrightarrow> attempts_bounded (run lo evs s)"
  by (induction evs arbitrary: s) (simp_all add: attempts_bounded_step)

lemma closure_attempts_at_most_three:
  assumes "handlers (run lo evs (initial_state users d)) h = Some cl"
  shows "reconnectAttempts cl \<le> 3"
proof -
  have "attempts_bounded (initial_state users d)"
    by (simp add: attempts_bounded_def initial_state_def)
  then have "attempts_bounded (run lo evs (initial_state users d))"
    by (rule attempts_bounded_run)
  then show ?thesis
    using assms by (simp add: attempts_bounded_def MAX_RECONNECT_ATTEMPTS_def)
qed

subsection \<open>Terminal close without logout\<close>

text \<open>
  What the final-disconnect branch leaves in the store when the close is no logout.
\<close>

lemma terminal_close_writes_session:
  assumes "handlers s h = Some cl" and "\<not> qr u" and "connection u = Some Close"
    and "statusCode u \<noteq> Some lo" and "MAX_RECONNECT_ATTEMPTS \<le> reconnectAttempts cl"
  shows "db (on_connection_update lo h u s) =
           saveSessionToMongo (handler_session cl)
             \<lparr>sd_creds = JNull, sd_authState = JNull, sd_settings = JObj [],
              sd_isActive = Some False\<rparr> (db s)"
    and "ready (db s) \<Longrightarrow>
         Session (db (on_connection_update lo h u s)) (handler_session cl) =
           Some \<lparr>doc_sessionId = handler_session cl, creds = JNull, authState = JNull,
                 settings = JObj [], isActive = True\<rparr>"
    and "\<not> ready (db s) \<Longrightarrow> db (on_connection_update lo h u s) = db s"
  using assms
  by (simp_all add: on_connection_update_def on_close_def saveSessionToMongo_def js_or_def
      Let_def)

text \<open>
  Claim C1. The number is paired and linked, then its socket closes four times with
  status 428 (connection closed): three reconnects are scheduled and the fourth close is
  terminal. The claim expects the Session document to stay with \<open>isActive = false\<close>
  and its credentials as they were. \<open>saveSessionToMongo\<close> writes
  \<open>isActive: true\<close> whatever it is given, and the handler gives it \<open>creds: null\<close>:
  the document is active and its credentials and auth state are \<open>null\<close>.
\<close>

theorem terminal_close_reactivates_and_clears_credentials:
  "Session (db (initial_state 0 paired_store)) number0 = Some paired_doc \<and>
   creds paired_doc = JObj [(''registered'', JBool True)] \<and>
   activeConnections (run 401 cap_exhausted_run (initial_state 0 paired_store)) number0 = None \<and>
   Session (db (run 401 cap_exhausted_run (initial_state 0 paired_store))) number0 =
     Some \<lparr>doc_sessionId = number0, creds = JNull, authState = JNull, settings = JObj [],
           isActive = True\<rparr>"
  by (simp add: cap_exhausted_run_def lifecycle_defs Let_def)


subsection \<open>Logout\<close>








subsection \<open>Reconnects across sockets\<close>

text \<open>
  When one socket reports every close, the delays grow and the fourth close ends the session.
\<close>

lemma single_socket_reconnect_delays:
  "timers (run 401 cap_exhausted_run (initial_state 0 paired_store)) =
     [(2000, Welcome 0), (5000, Reconnect number0), (10000, Reconnect number0),
      (15000, Reconnect number0)] \<and>
   activeConnections (run 401 cap_exhausted_run (initial_state 0 paired_store)) number0 = None"
  by (simp add: cap_exhausted_run_def lifecycle_defs Let_def)

text \<open>
  Claim C3. The number is paired and linked; its socket closes with status 428, the
  reconnect timer fires and \<open>initializeConnection\<close> makes a new socket, which closes
  in turn, and so on. Every new socket gets a new closure whose counter starts at 0, so the
  fourth consecutive attempt is scheduled like the first three, each after 5000 ms, and
  the session is still in the connection table and was never unlinked. The claim expects
  at most three attempts, with delays 5000, 10000 and 15000 ms.
\<close>

theorem reconnect_counter_restarts_per_socket:
  "timers (run 401 flapping_run (initial_state 0 paired_store)) =
     [(2000, Welcome 0), (5000, Reconnect number0), (5000, Reconnect number0),
      (5000, Reconnect number0), (5000, Reconnect number0)] \<and>
   activeConnections (run 401 flapping_run (initial_state 0 paired_store)) number0 = Some 3 \<and>
   Unlinked number0 \<notin> set (emits (run 401 flapping_run (initial_state 0 paired_store)))"
  by (simp add: flapping_run_def lifecycle_defs Let_def)



section \<open>Message classifier: properties\<close>




definition text_message :: "msg_key \<Rightarrow> string \<Rightarrow> raw_message" where
  "text_message k body = \<lparr>key = k, payload = JObj [(''conversation'', JStr body)]\<rparr>"




section \<open>Command registry: properties\<close>

definition promote_module :: js where
  "promote_module =
     JObj [(''pattern'', JStr ''promote''), (''alias'', JArr [JStr ''admin'', JStr ''makeadmin'']),
           (''execute'', JFun 0)]"

definition runtime_command :: js where
  "runtime_command = JObj [(''pattern'', JStr ''runtime''), (''execute'', JFun 1)]"

lemmas registry_defs =
  promote_module_def runtime_command_def loadCommands_def is_command_file_def load_module_def
  register_entry_def commands_get_def suffix_to_prefix

text \<open>
  Claim C4. A file \<open>promote.js\<close> that exports one descriptor with the aliases
  \<open>admin\<close> and \<open>makeadmin\<close> is registered under its pattern only: the
  single-descriptor branch of \<open>loadCommands\<close> never reads \<open>alias\<close>. The claim
  expects both aliases to find the descriptor, as they do when the same descriptor sits in
  a multi-descriptor file.
\<close>

theorem single_module_aliases_not_registered:
  "commands_get (loadCommands (Some [(''promote.js'', Some promote_module)]) runtime_command)
     ''promote'' = Some promote_module \<and>
   commands_get (loadCommands (Some [(''promote.js'', Some promote_module)]) runtime_command)
     ''admin'' = None \<and>
   commands_get (loadCommands (Some [(''promote.js'', Some promote_module)]) runtime_command)
     ''makeadmin'' = None \<and>
   commands_get
     (loadCommands (Some [(''group.js'', Some (JObj [(''promote'', promote_module)]))])
        runtime_command) ''admin'' = Some promote_module"
  by (simp add: registry_defs)

section \<open>Dispatcher: properties\<close>

definition default_env :: env where
  "default_env =
     \<lparr>env_PREFIX = None, env_AUTO_STATUS_SEEN = None, env_AUTO_STATUS_REACT = None,
      env_AUTO_STATUS_REPLY = None, env_CHANNEL_JIDS = None\<rparr>"

definition empty_store :: store where
  "empty_store = \<lparr>ready = True, Session = Map.empty, UserSettings = Map.empty, PairingCode = []\<rparr>"

text \<open>The bot's socket: every call returns, and no group metadata can be fetched.\<close>

definition bot_conn :: conn where
  "bot_conn =
     \<lparr>user_id = ''15551234567:12@s.whatsapp.net'', newsletterSend = True,
      fetch_groupMetadata = (\<lambda>jid. None), rejects = (\<lambda>x. False)\<rparr>"

definition stranger_key :: msg_key where
  "stranger_key =
     \<lparr>remoteJid = ''915551234567@s.whatsapp.net'', participant = None, fromMe = False,
      key_id = ''3EB0B2''\<rparr>"

lemmas dispatch_defs =
  handleMessage_def handleBuiltInCommands_def getMessageType_def getMessageText_def js_or_def
  effective_prefix_def loadUserSettingsFromMongo_def getDefaultSettings_def PREFIX_def
  split_spaces_def trim_def is_space_def toLowerCase_def toLowerCase_char_def or_jid_def
  split_first_def suffix_to_prefix commands_get_def saveUserSettingsToMongo_def

text \<open>
  Claim C6. The account is \<open>15551234567\<close> on device 12. A private message
  \<open>.prefix !\<close> comes from \<open>915551234567\<close>, whose base identifier differs from the
  account's but contains it: the owner test is \<open>includes\<close>, so the sender passes, the
  settings are written and the new prefix is confirmed. The claim expects the owner-only
  refusal and no write.
\<close>

theorem prefix_accepts_sender_containing_owner_number:
  "split_first (CHR ''@'') (remoteJid stranger_key) \<noteq> split_first (CHR '':'') (user_id bot_conn) \<and>
   fst (handleMessage default_env [] bot_conn (text_message stranger_key ''.prefix !'')
          ''15551234567'' empty_store) =
     [SaveUserSettings ''15551234567'' ''!'',
      SendMessage ''915551234567@s.whatsapp.net'' (PrefixUpdated ''!'')] \<and>
   map_option us_prefix
     (UserSettings
        (snd (handleMessage default_env [] bot_conn (text_message stranger_key ''.prefix !'')
                ''15551234567'' empty_store)) ''15551234567'') = Some ''!''"
  by (simp add: default_env_def empty_store_def bot_conn_def stranger_key_def text_message_def
      dispatch_defs Let_def)







definition group_key :: msg_key where
  "group_key =
     \<lparr>remoteJid = ''120363025246125888@g.us'',
      participant = Some ''15557654321@s.whatsapp.net'', fromMe = False, key_id = ''3EB0D4''\<rparr>"

lemma group_chat_is_no_status:
  assumes "suffix ''@g.us'' jid"
  shows "jid \<noteq> ''status@broadcast''"
  using assms by (auto simp add: suffix_to_prefix)

text \<open>
  Claim C8. A group message whose body starts with the effective prefix, whose command the
  built-ins do not handle and the registry holds, and for which fetching the group
  metadata fails, is dispatched all the same: after what the built-in handler did, the
  listener is registered and the plugin is executed once, with \<open>groupMetadata\<close> null
  and \<open>isAdmins\<close> and \<open>isCreator\<close> false.
\<close>

theorem metadata_failure_still_invokes_plugin:
  assumes "suffix ''@g.us'' (remoteJid (key message))"
    and "truthy (payload message)"
    and "getMessageText message (getMessageType message) = JStr body"
    and "prefix (effective_prefix e sessionId d) body"
    and "split_spaces (trim (drop (length (effective_prefix e sessionId d)) body)) = first # args'"
    and "\<not> fst (handleBuiltInCommands e commands c message (toLowerCase first) args' sessionId d)"
    and "commands_get commands (toLowerCase first) = Some command"
    and "fetch_groupMetadata c (remoteJid (key message)) = None"
  shows "fst (handleMessage e commands c message sessionId d) =
           fst (snd (handleBuiltInCommands e commands c message (toLowerCase first) args'
                       sessionId d)) @
           [OnGroupParticipantsUpdate,
            Execute command
              \<lparr>mentionedJid =
                 js_or (oget (oget (oget (payload message) ''extendedTextMessage'')
                          ''contextInfo'') ''mentionedJid'') (JArr []),
               quoted = getQuotedMessage message,
               m_sender = or_jid (participant (key message)) (remoteJid (key message))\<rparr>
              \<lparr>args = args',
               q = trim (drop (length (effective_prefix e sessionId d) +
                                length (toLowerCase first)) body),
               fromJid = remoteJid (key message), isGroup = True, groupMetadata = None,
               sender = or_jid (participant (key message)) (remoteJid (key message)),
               isAdmins = False, isCreator = False\<rparr>]"
proof -
  have "remoteJid (key message) \<noteq> ''status@broadcast''"
    using assms(1) by (rule group_chat_is_no_status)
  then show ?thesis
    using assms
    by (simp add: handleMessage_def invoke_plugin_def is_admin_rank_def is_superadmin_rank_def
        Let_def)
qed

text \<open>
  Claim C8, at the group message \<open>.Promote @15550001111\<close> on a socket that cannot
  fetch group metadata.
\<close>

theorem metadata_failure_still_invokes_plugin_witness:
  "fst (handleMessage default_env [(JStr ''promote'', promote_module)] bot_conn
          (text_message group_key ''.Promote @15550001111'') ''15551234567'' empty_store) =
     [OnGroupParticipantsUpdate,
      Execute promote_module
        \<lparr>mentionedJid = JArr [], quoted = JNull, m_sender = ''15557654321@s.whatsapp.net''\<rparr>
        \<lparr>args = [''@15550001111''], q = ''@15550001111'',
         fromJid = ''120363025246125888@g.us'', isGroup = True, groupMetadata = None,
         sender = ''15557654321@s.whatsapp.net'', isAdmins = False, isCreator = False\<rparr>]"
proof -
  let ?m = "text_message group_key ''.Promote @15550001111''"
  let ?reg = "[(JStr ''promote'', promote_module)]"
  have p: "effective_prefix default_env ''15551234567'' empty_store = ''.''"
    by (simp add: default_env_def empty_store_def dispatch_defs)
  have a: "suffix ''@g.us'' (remoteJid (key ?m))" "truthy (payload ?m)"
    by (simp_all add: text_message_def group_key_def suffix_to_prefix)
  have b: "getMessageText ?m (getMessageType ?m) = JStr ''.Promote @15550001111''"
    by (simp add: text_message_def getMessageType_def getMessageText_def js_or_def)
  have c: "prefix (effective_prefix default_env ''15551234567'' empty_store)
             ''.Promote @15550001111''"
    by (simp add: p)
  have d: "split_spaces (trim (drop (length (effective_prefix default_env ''15551234567''
             empty_store)) ''.Promote @15550001111'')) = ''Promote'' # [''@15550001111'']"
    by (simp add: p split_spaces_def trim_def is_space_def)
  have l: "toLowerCase ''Promote'' = ''promote''"
    by (simp add: toLowerCase_def toLowerCase_char_def)
  have e: "\<not> fst (handleBuiltInCommands default_env ?reg bot_conn ?m (toLowerCase ''Promote'')
             [''@15550001111''] ''15551234567'' empty_store)"
    by (simp add: l handleBuiltInCommands_def text_message_def group_key_def suffix_to_prefix
        Let_def)
  have f: "commands_get ?reg (toLowerCase ''Promote'') = Some promote_module"
    by (simp add: l commands_get_def)
  have g: "fetch_groupMetadata bot_conn (remoteJid (key ?m)) = None"
    by (simp add: bot_conn_def)
  have h: "fst (snd (handleBuiltInCommands default_env ?reg bot_conn ?m (toLowerCase ''Promote'')
             [''@15550001111''] ''15551234567'' empty_store)) = []"
    by (simp add: l handleBuiltInCommands_def text_message_def group_key_def suffix_to_prefix
        Let_def)
  show ?thesis
    using metadata_failure_still_invokes_plugin [OF a b c d e f g, unfolded h]
    by (simp add: p l text_message_def group_key_def getQuotedMessage_def js_or_def or_jid_def
        trim_def is_space_def)
qed

section \<open>The promote plugin: properties\<close>

definition group_info :: group_metadata where
  "group_info =
     \<lparr>subject = ''Kombat'',
      participants =
        [\<lparr>p_id = ''15550001111@s.whatsapp.net'', admin = Some ''superadmin''\<rparr>,
         \<lparr>p_id = ''15557654321@s.whatsapp.net'', admin = None\<rparr>]\<rparr>"

definition group_conn :: conn where
  "group_conn = bot_conn\<lparr>fetch_groupMetadata := (\<lambda>jid. Some group_info)\<rparr>"

definition member_context :: invocation_context where
  "member_context =
     \<lparr>args = [''@15550001111''], q = ''@15550001111'',
      fromJid = ''120363025246125888@g.us'', isGroup = True, groupMetadata = Some group_info,
      sender = ''15557654321@s.whatsapp.net'', isAdmins = False, isCreator = False\<rparr>"

definition mention_info :: m_info where
  "mention_info =
     \<lparr>mentionedJid = JArr [JStr ''15550001111@s.whatsapp.net''], quoted = JNull,
      m_sender = ''15557654321@s.whatsapp.net''\<rparr>"

text \<open>
  Claim C9. In a group whose metadata does not list the sender as admin or superadmin, and
  with a sender whose base identifier is not the account's, \<open>execute\<close> makes one call,
  the reply that only admins can use the command, and no participant update.
\<close>

theorem promote_denied_without_rank:
  assumes "isGroup ctx"
    and "fetch_groupMetadata c (fromJid ctx) = Some metadata"
    and "\<not> is_admin_rank (find (\<lambda>p. p_id p = sender ctx) (participants metadata))"
    and "split_first (CHR '':'') (user_id c) \<noteq> split_first (CHR ''@'') (sender ctx)"
  shows "promote_execute c message m ctx = [SendMessage (remoteJid (key message)) OnlyAdmins] \<and>
         \<not> list_ex is_participants_update (promote_execute c message m ctx)"
  using assms by (simp add: promote_execute_def is_participants_update_def Let_def)

text \<open>Claim C9, at a plain member of the group asking to promote its superadmin.\<close>

theorem promote_denied_without_rank_witness:
  "promote_execute group_conn (text_message group_key ''.promote @15550001111'') mention_info
     member_context = [SendMessage ''120363025246125888@g.us'' OnlyAdmins] \<and>
   \<not> list_ex is_participants_update
     (promote_execute group_conn (text_message group_key ''.promote @15550001111'') mention_info
        member_context)"
proof -
  have a: "isGroup member_context"
    "fetch_groupMetadata group_conn (fromJid member_context) = Some group_info"
    by (simp_all add: member_context_def group_conn_def)
  have b: "\<not> is_admin_rank (find (\<lambda>p. p_id p = sender member_context) (participants group_info))"
    by (simp add: member_context_def group_info_def is_admin_rank_def)
  have c: "split_first (CHR '':'') (user_id group_conn) \<noteq>
           split_first (CHR ''@'') (sender member_context)"
    by (simp add: group_conn_def bot_conn_def member_context_def split_first_def)
  show ?thesis
    using promote_denied_without_rank [OF a b c,
        of "text_message group_key ''.promote @15550001111''" mention_info]
    by (simp add: text_message_def group_key_def is_participants_update_def)
qed

text \<open>An admin's invocation, for contrast: the update call is made.\<close>

lemma promote_by_admin_updates:
  "promote_execute group_conn (text_message group_key ''.promote @15550001111'') mention_info
     (member_context\<lparr>sender := ''15550001111@s.whatsapp.net''\<rparr>) =
     [SendMessage ''120363025246125888@g.us'' ReactSuccess,
      GroupParticipantsUpdate ''120363025246125888@g.us''
        [JStr ''15550001111@s.whatsapp.net''] ''promote'',
      SendMessage ''120363025246125888@g.us'' (Promoted ''15550001111'')]"
  by (simp add: promote_execute_def group_conn_def bot_conn_def member_context_def
      mention_info_def group_info_def is_admin_rank_def promote_target_def split_first_def
      Let_def)

end
